theory Spec2Isabelle
  imports Main "HOL-Library.Word"
begin

section \<open>JavaScript values and strings\<close>

text \<open>
  A JavaScript string is a sequence of UTF-16 code units.  ASCII literals of the source are
  written through \<open>u16\<close>; the two symbols used in the alert texts are single code units.
\<close>

type_synonym jsstring = "16 word list"

definition u16 :: "string \<Rightarrow> jsstring" where
  "u16 cs = map (\<lambda>c. of_char c) cs"

definition CROSS_MARK :: "16 word" where
  "CROSS_MARK = 0x274C"

definition CHECK_MARK :: "16 word" where
  "CHECK_MARK = 0x2705"

text \<open>
  A number, by the two things the handlers can observe of it: whether it is falsy (it is
  \<open>0\<close>, \<open>-0\<close> or \<open>NaN\<close>), and the text \<open>Number::toString\<close> gives for it
  (\<open>42\<close>, \<open>0.5\<close>, \<open>1e+21\<close>).  Every number of JavaScript, fractions and large
  magnitudes included, is one such pair; the type also holds pairs that no number has,
  which only adds inputs to what is proved for all values.
\<close>

datatype jsnum = Num (num_falsy: bool) (num_text: jsstring)

text \<open>
  The values that reach the component: what \<open>JSON.parse\<close> can produce (axios hands the
  parsed body over as \<open>response.data\<close>), and \<open>undefined\<close>, which reading an absent
  property gives.  \<open>JObj\<close> lists the own properties of a plain object, each key once.
\<close>

datatype jsval =
    JUndefined
  | JNull
  | JBool bool
  | JNum jsnum
  | JStr jsstring
  | JArr "jsval list"
  | JObj "(jsstring \<times> jsval) list"

text \<open>
  What a handler can catch.  \<open>AxiosError m r\<close> is what axios rejects a request with:
  \<open>m\<close> is \<open>error.message\<close>, and \<open>r\<close> is \<open>error.response.data\<close> when the server
  answered with an error status (axios rejects every answer outside 2xx), \<open>None\<close> when no
  answer came.  The handlers read the message only.
\<close>

datatype js_error =
    AxiosError jsstring "jsval option"
  | TypeError jsstring

fun message :: "js_error \<Rightarrow> jsstring" where
  "message (AxiosError m r) = m"
| "message (TypeError m) = m"

text \<open>\<open>ToBoolean\<close>: what \<open>!v\<close>, \<open>v || d\<close> and \<open>if (v)\<close> test.\<close>

fun js_truthy :: "jsval \<Rightarrow> bool" where
  "js_truthy JUndefined = False"
| "js_truthy JNull = False"
| "js_truthy (JBool b) = b"
| "js_truthy (JNum n) = (\<not> num_falsy n)"
| "js_truthy (JStr s) = (s \<noteq> [])"
| "js_truthy (JArr xs) = True"
| "js_truthy (JObj kvs) = True"

text \<open>\<open>a || b\<close> on values.\<close>

definition js_or :: "jsval \<Rightarrow> jsval \<Rightarrow> jsval" where
  "js_or a b = (if js_truthy a then a else b)"

text \<open>
  The message of the TypeError that reading a property of \<open>null\<close> or \<open>undefined\<close>
  throws.  The wording is the engine's (this is V8's); nothing below depends on it.
\<close>

definition type_error_message :: "jsval \<Rightarrow> jsstring \<Rightarrow> jsstring" where
  "type_error_message v k =
     u16 ''Cannot read properties of '' @
     (if v = JNull then u16 ''null'' else u16 ''undefined'') @
     u16 '' (reading '' @ [0x27] @ k @ [0x27] @ u16 '')''"

text \<open>
  Property read \<open>v.k\<close>.  It throws on \<open>null\<close> and \<open>undefined\<close>, looks the key up in
  an object and gives \<open>undefined\<close> when it is absent.  On the other values it gives
  \<open>undefined\<close>: the handlers read only \<open>status\<close>, \<open>message\<close>, \<open>metadata\<close>,
  \<open>structured_markdown\<close>, \<open>generated_json\<close>, \<open>suggested_prompt\<close>, \<open>result\<close> and
  \<open>layout\<close>, none of which a string, number, boolean or array has.
\<close>

fun get_prop :: "jsval \<Rightarrow> jsstring \<Rightarrow> js_error + jsval" where
  "get_prop JUndefined k = Inl (TypeError (type_error_message JUndefined k))"
| "get_prop JNull k = Inl (TypeError (type_error_message JNull k))"
| "get_prop (JObj kvs) k = Inr (case map_of kvs k of None \<Rightarrow> JUndefined | Some v \<Rightarrow> v)"
| "get_prop v k = Inr JUndefined"

text \<open>The same read where the receiver is known not to be \<open>null\<close> or \<open>undefined\<close>.\<close>

definition read_prop :: "jsval \<Rightarrow> jsstring \<Rightarrow> jsval" where
  "read_prop v k = (case get_prop v k of Inl e \<Rightarrow> JUndefined | Inr x \<Rightarrow> x)"

subsection \<open>String conversion\<close>

fun js_join :: "jsstring \<Rightarrow> jsstring list \<Rightarrow> jsstring" where
  "js_join sep [] = []"
| "js_join sep [x] = x"
| "js_join sep (x # y # ys) = x @ sep @ js_join sep (y # ys)"

text \<open>The results of a row of conversions done from left to right: the first throw ends it.\<close>

fun collect :: "(js_error + 'a) list \<Rightarrow> js_error + 'a list" where
  "collect [] = Inr []"
| "collect (Inl e # rs) = Inl e"
| "collect (Inr x # rs) = (case collect rs of Inl e \<Rightarrow> Inl e | Inr xs \<Rightarrow> Inr (x # xs))"

text \<open>
  The message of the TypeError that converting an object without a usable \<open>toString\<close>
  and \<open>valueOf\<close> throws (V8's wording).
\<close>

definition NOT_PRIMITIVE :: jsstring where
  "NOT_PRIMITIVE = u16 ''Cannot convert object to primitive value''"

text \<open>
  The conversion to a string that \<open>"text" + v\<close> applies to \<open>v\<close>.  A string is itself and
  a number its text.  A plain object goes through \<open>valueOf\<close> and \<open>toString\<close>: the
  inherited \<open>valueOf\<close> gives the object back, so \<open>toString\<close> decides, and that is the
  inherited one, giving \<open>[object Object]\<close>, unless the object has a property of that name of
  its own, which in parsed JSON is never a function: then the conversion throws.  An
  array is its elements joined by commas, \<open>null\<close> and \<open>undefined\<close> elements giving
  nothing and any other element being converted in the same way.
\<close>

fun js_to_string :: "jsval \<Rightarrow> js_error + jsstring" where
  "js_to_string JUndefined = Inr (u16 ''undefined'')"
| "js_to_string JNull = Inr (u16 ''null'')"
| "js_to_string (JBool b) = Inr (if b then u16 ''true'' else u16 ''false'')"
| "js_to_string (JNum n) = Inr (num_text n)"
| "js_to_string (JStr s) = Inr s"
| "js_to_string (JArr xs) =
     (case collect
             (map (\<lambda>x. if x = JNull \<or> x = JUndefined then Inr [] else js_to_string x) xs) of
        Inl e \<Rightarrow> Inl e
      | Inr ts \<Rightarrow> Inr (js_join (u16 '','') ts))"
| "js_to_string (JObj kvs) =
     (if map_of kvs (u16 ''toString'') = None then Inr (u16 ''[object Object]'')
      else Inl (TypeError NOT_PRIMITIVE))"

text \<open>\<open>s.startsWith(m)\<close> and \<open>s.includes(m)\<close>.\<close>

fun starts_with :: "jsstring \<Rightarrow> jsstring \<Rightarrow> bool" where
  "starts_with s [] = True"
| "starts_with [] (c # m) = False"
| "starts_with (a # s) (c # m) = (a = c \<and> starts_with s m)"

fun js_includes :: "jsstring \<Rightarrow> jsstring \<Rightarrow> bool" where
  "js_includes [] m = (m = [])"
| "js_includes (a # s) m = (starts_with (a # s) m \<or> js_includes s m)"

subsection \<open>Trimming and splitting\<close>

text \<open>The code units that \<open>String.prototype.trim\<close> strips: WhiteSpace and LineTerminator.\<close>

definition is_ws :: "16 word \<Rightarrow> bool" where
  "is_ws c \<longleftrightarrow>
     c = 0x0009 \<or> c = 0x000A \<or> c = 0x000B \<or> c = 0x000C \<or> c = 0x000D \<or> c = 0x0020 \<or>
     c = 0x00A0 \<or> c = 0x1680 \<or> (0x2000 \<le> c \<and> c \<le> 0x200A) \<or> c = 0x2028 \<or>
     c = 0x2029 \<or> c = 0x202F \<or> c = 0x205F \<or> c = 0x3000 \<or> c = 0xFEFF"

definition js_trim :: "jsstring \<Rightarrow> jsstring" where
  "js_trim s = rev (dropWhile is_ws (rev (dropWhile is_ws s)))"

text \<open>A text is blank when it is empty or holds white space only.\<close>

definition blank :: "jsstring \<Rightarrow> bool" where
  "blank s = list_all is_ws s"

text \<open>\<open>s.split(sep)\<close> for a separator of one code unit: never the empty array.\<close>

fun js_split :: "16 word \<Rightarrow> jsstring \<Rightarrow> jsstring list" where
  "js_split sep [] = [[]]"
| "js_split sep (c # cs) =
     (if c = sep then [] # js_split sep cs
      else (case js_split sep cs of
              [] \<Rightarrow> [[c]]
            | seg # segs \<Rightarrow> (c # seg) # segs))"


section \<open>The component's state\<close>

text \<open>A \<open>File\<close> of the browser: its name and its bytes.\<close>

datatype jsfile = File (file_name: jsstring) (file_bytes: "8 word list")

text \<open>
  The \<open>useState\<close> cells of \<open>PDFChatInterface\<close> and the ref \<open>uploadedFile\<close>
  (\<open>None\<close> is \<open>null\<close>).  The cells that a response is stored in hold whatever value
  the response carried.
\<close>

record state =
  schemaJson :: jsstring
  metadata :: jsval
  description :: jsval
  generatedJson :: jsval
  suggestedPrompt :: jsval
  userPrompt :: jsstring
  promptResult :: jsval
  pdfUrl :: "jsstring option"
  fileType :: jsstring
  loading :: bool
  uploadedFile :: "jsfile option"

definition initial_state :: state where
  "initial_state =
     \<lparr> schemaJson = [], metadata = JObj [], description = JStr [], generatedJson = JObj [],
       suggestedPrompt = JStr [], userPrompt = [], promptResult = JNull, pdfUrl = None,
       fileType = [], loading = False, uploadedFile = None \<rparr>"

section \<open>Effects of a handler\<close>

datatype part = FilePart jsfile | TextPart jsstring

datatype body =
    Multipart "(jsstring \<times> part) list"
  | Json jsval

text \<open>
  What a handler does, in the order in which it does it: the state setters it calls, the
  assignment to the ref, \<open>alert\<close>, \<open>console.error\<close> and \<open>axios.post\<close> (address and
  body as passed to axios).
\<close>

datatype effect =
    SetSchemaJson jsstring
  | SetMetadata jsval
  | SetDescription jsval
  | SetGeneratedJson jsval
  | SetSuggestedPrompt jsval
  | SetUserPrompt jsstring
  | SetPromptResult jsval
  | SetPdfUrl "jsstring option"
  | SetFileType jsstring
  | SetLoading bool
  | SetUploadedFile jsfile
  | Alert jsstring
  | ConsoleError js_error
  | Post jsstring body

fun apply_effect :: "effect \<Rightarrow> state \<Rightarrow> state" where
  "apply_effect (SetSchemaJson v) s = s\<lparr>schemaJson := v\<rparr>"
| "apply_effect (SetMetadata v) s = s\<lparr>metadata := v\<rparr>"
| "apply_effect (SetDescription v) s = s\<lparr>description := v\<rparr>"
| "apply_effect (SetGeneratedJson v) s = s\<lparr>generatedJson := v\<rparr>"
| "apply_effect (SetSuggestedPrompt v) s = s\<lparr>suggestedPrompt := v\<rparr>"
| "apply_effect (SetUserPrompt v) s = s\<lparr>userPrompt := v\<rparr>"
| "apply_effect (SetPromptResult v) s = s\<lparr>promptResult := v\<rparr>"
| "apply_effect (SetPdfUrl v) s = s\<lparr>pdfUrl := v\<rparr>"
| "apply_effect (SetFileType v) s = s\<lparr>fileType := v\<rparr>"
| "apply_effect (SetLoading v) s = s\<lparr>loading := v\<rparr>"
| "apply_effect (SetUploadedFile f) s = s\<lparr>uploadedFile := Some f\<rparr>"
| "apply_effect (Alert t) s = s"
| "apply_effect (ConsoleError e) s = s"
| "apply_effect (Post u b) s = s"

text \<open>
  A handler runs to completion between two points at which it can be suspended (its start,
  an \<open>await\<close>, its end).  React 18, which the \<open>"use client"\<close> directive of the app router
  presupposes, batches the setters called in such a run and renders their joint result
  once; \<open>commit\<close> is that render, and the states it yields are the only ones the user or
  another handler can see.
\<close>

definition commit :: "effect list \<Rightarrow> state \<Rightarrow> state" where
  "commit es s = fold apply_effect es s"

fun alerts_of :: "effect list \<Rightarrow> jsstring list" where
  "alerts_of [] = []"
| "alerts_of (Alert t # es) = t # alerts_of es"
| "alerts_of (e # es) = alerts_of es"

fun requests_of :: "effect list \<Rightarrow> (jsstring \<times> body) list" where
  "requests_of [] = []"
| "requests_of (Post u b # es) = (u, b) # requests_of es"
| "requests_of (e # es) = requests_of es"

subsection \<open>Computations that emit effects and may throw\<close>

type_synonym 'a comp = "effect list \<times> (js_error + 'a)"

definition ret :: "'a \<Rightarrow> 'a comp" where
  "ret x = ([], Inr x)"

definition throw :: "js_error \<Rightarrow> 'a comp" where
  "throw e = ([], Inl e)"

definition lift :: "js_error + 'a \<Rightarrow> 'a comp" where
  "lift r = ([], r)"

definition emit :: "effect \<Rightarrow> unit comp" where
  "emit f = ([f], Inr ())"

definition cbind :: "'a comp \<Rightarrow> ('a \<Rightarrow> 'b comp) \<Rightarrow> 'b comp" where
  "cbind m f =
     (case m of
        (es, Inl e) \<Rightarrow> (es, Inl e)
      | (es, Inr x) \<Rightarrow> (case f x of (es', r) \<Rightarrow> (es @ es', r)))"

definition cseq :: "unit comp \<Rightarrow> 'b comp \<Rightarrow> 'b comp" where
  "cseq m n = cbind m (\<lambda>_. n)"

text \<open>\<open>try { m } catch (e) { h e }\<close>\<close>

definition try_catch :: "unit comp \<Rightarrow> (js_error \<Rightarrow> unit comp) \<Rightarrow> unit comp" where
  "try_catch m h =
     (case m of
        (es, Inl e) \<Rightarrow> (case h e of (es', r) \<Rightarrow> (es @ es', r))
      | (es, Inr x) \<Rightarrow> (es, Inr x))"

text \<open>\<open>try { m } finally { f }\<close>: \<open>f\<close> runs on both exits; what \<open>m\<close> threw is thrown on.\<close>

definition try_finally :: "unit comp \<Rightarrow> unit comp \<Rightarrow> unit comp" where
  "try_finally m f =
     (case m of (es, r) \<Rightarrow>
        (case f of
           (es', Inl e') \<Rightarrow> (es @ es', Inl e')
         | (es', Inr x) \<Rightarrow> (es @ es', r)))"

text \<open>How an awaited request ends: with \<open>response.data\<close>, or rejected with an error.\<close>

datatype outcome = Resolved jsval | Rejected js_error

fun await :: "outcome \<Rightarrow> jsval comp" where
  "await (Resolved data) = ret data"
| "await (Rejected e) = throw e"

definition effects :: "'a comp \<Rightarrow> effect list" where
  "effects c = fst c"

definition uncaught :: "'a comp \<Rightarrow> js_error option" where
  "uncaught c = (case snd c of Inl e \<Rightarrow> Some e | Inr x \<Rightarrow> None)"

section \<open>The handlers\<close>

definition BASE :: jsstring where
  "BASE = u16 ''http://localhost:8000''"

subsection \<open>handleFileUpload\<close>

text \<open>
  \<open>files\<close> is \<open>event.target.files\<close>.  \<open>toLowerCase\<close> and \<open>createObjectURL\<close> are the
  browser's; they are parameters.
\<close>

definition handleFileUpload ::
  "(jsstring \<Rightarrow> jsstring) \<Rightarrow> (jsfile \<Rightarrow> jsstring) \<Rightarrow> jsfile list \<Rightarrow> unit comp" where
  "handleFileUpload toLowerCase createObjectURL files =
     (case files of
        [] \<Rightarrow> ret ()
      | file # rest \<Rightarrow>
          (let ext = toLowerCase (last (js_split 0x2E (file_name file))) in
           cseq (emit (SetUploadedFile file))
          (cseq (emit (SetFileType ext))
                (if ext = u16 ''pdf''
                 then emit (SetPdfUrl (Some (createObjectURL file)))
                 else emit (SetPdfUrl None)))))"

subsection \<open>handleProcessFile\<close>

text \<open>Up to the \<open>await\<close>: the two guards, then the flag and the request.\<close>

definition handleProcessFile :: "state \<Rightarrow> unit comp" where
  "handleProcessFile s =
     (case uploadedFile s of
        None \<Rightarrow> emit (Alert (CROSS_MARK # u16 '' Please upload a file first.''))
      | Some f \<Rightarrow>
          if js_trim (schemaJson s) = []
          then emit (Alert (CROSS_MARK # u16 '' Please provide schema JSON in the textarea.''))
          else cseq (emit (SetLoading True))
                    (emit (Post (BASE @ u16 ''/process-document/'')
                             (Multipart [(u16 ''file'', FilePart f),
                                         (u16 ''schema_json'', TextPart (schemaJson s))]))))"

text \<open>The body of the \<open>try\<close> block after the \<open>await\<close>, on \<open>response.data\<close>.\<close>

definition process_response :: "jsval \<Rightarrow> unit comp" where
  "process_response data =
     cbind (lift (get_prop data (u16 ''status''))) (\<lambda>status.
       if status = JStr (u16 ''success'') then
         cbind (lift (get_prop data (u16 ''metadata''))) (\<lambda>m.
         cseq (emit (SetMetadata m))
        (cbind (lift (get_prop data (u16 ''structured_markdown''))) (\<lambda>d.
         cseq (emit (SetDescription d))
        (cbind (lift (get_prop data (u16 ''generated_json''))) (\<lambda>g.
         cseq (emit (SetGeneratedJson g))
        (cbind (lift (get_prop data (u16 ''suggested_prompt''))) (\<lambda>p.
         emit (SetSuggestedPrompt (js_or p (JStr []))))))))))
       else
         cbind (lift (get_prop data (u16 ''message''))) (\<lambda>msg.
         cbind (lift (js_to_string msg)) (\<lambda>text.
           emit (Alert (CROSS_MARK # u16 '' Error: '' @ text)))))"

text \<open>From the \<open>await\<close> on, with \<open>catch\<close> and \<open>finally\<close>.\<close>

definition handleProcessFile_resume :: "outcome \<Rightarrow> unit comp" where
  "handleProcessFile_resume out =
     try_finally
       (try_catch (cbind (await out) process_response)
          (\<lambda>error. cseq (emit (ConsoleError error))
                         (emit (Alert (CROSS_MARK # u16 '' API call failed: '' @ message error)))))
       (emit (SetLoading False))"

subsection \<open>handleTryPrompt\<close>

definition handleTryPrompt :: "state \<Rightarrow> unit comp" where
  "handleTryPrompt s =
     (if js_trim (userPrompt s) = [] then ret ()
      else emit (Post (BASE @ u16 ''/try-prompt/'')
                   (Json (JObj [(u16 ''prompt'', JStr (userPrompt s)),
                                (u16 ''structured_markdown'', description s)]))))"

definition handleTryPrompt_resume :: "outcome \<Rightarrow> unit comp" where
  "handleTryPrompt_resume out =
     try_catch
       (cbind (await out) (\<lambda>data.
          cbind (lift (get_prop data (u16 ''result''))) (\<lambda>r. emit (SetPromptResult r))))
       (\<lambda>err. cseq (emit (ConsoleError err))
                    (emit (SetPromptResult
                             (JObj [(u16 ''error'', JStr (u16 ''Failed to try prompt''))]))))"

subsection \<open>handleSavePrompt\<close>

text \<open>
  The guard \<open>!userPrompt.trim() || !metadata.layout\<close> reads \<open>metadata.layout\<close> only when
  the prompt is not blank; the read is outside the \<open>try\<close>.
\<close>

definition handleSavePrompt :: "state \<Rightarrow> unit comp" where
  "handleSavePrompt s =
     (if js_trim (userPrompt s) = []
      then emit (Alert (CROSS_MARK # u16 '' Missing prompt or layout''))
      else cbind (lift (get_prop (metadata s) (u16 ''layout''))) (\<lambda>layout.
             if \<not> js_truthy layout
             then emit (Alert (CROSS_MARK # u16 '' Missing prompt or layout''))
             else emit (Post (BASE @ u16 ''/save-prompt/'')
                          (Json (JObj [(u16 ''layout'', layout),
                                       (u16 ''prompt'', JStr (userPrompt s))])))))"

definition handleSavePrompt_resume :: "outcome \<Rightarrow> unit comp" where
  "handleSavePrompt_resume out =
     try_catch
       (cbind (await out) (\<lambda>data. emit (Alert (CHECK_MARK # u16 '' Prompt saved to Supabase!''))))
       (\<lambda>err. cseq (emit (ConsoleError err))
                    (emit (Alert (CROSS_MARK # u16 '' Failed to save prompt''))))"

subsection \<open>What the view shows\<close>

text \<open>The Process button: \<open>disabled={loading}\<close> and its label.\<close>

definition submit_disabled :: "state \<Rightarrow> bool" where
  "submit_disabled s = loading s"

definition submit_label :: "state \<Rightarrow> jsstring" where
  "submit_label s = (if loading s then u16 ''Processing...'' else u16 ''Process File'')"

text \<open>The result block of the chat panel is rendered when \<open>promptResult\<close> is truthy.\<close>

definition result_shown :: "state \<Rightarrow> bool" where
  "result_shown s = js_truthy (promptResult s)"

section \<open>The vocabulary of the properties\<close>

text \<open>The response reports success: \<open>response.data.status === "success"\<close>.\<close>

definition succeeded :: "jsval \<Rightarrow> bool" where
  "succeeded data \<longleftrightarrow> get_prop data (u16 ''status'') = Inr (JStr (u16 ''success''))"

text \<open>The four result fields.\<close>

definition four_fields :: "state \<Rightarrow> jsval \<times> jsval \<times> jsval \<times> jsval" where
  "four_fields s = (metadata s, description s, generatedJson s, suggestedPrompt s)"

text \<open>
  The states rendered in the course of one process call that nothing else interleaves
  with: the one after the run up to the \<open>await\<close>, and the one after the run from it.
\<close>

definition process_call_renders :: "state \<Rightarrow> outcome \<Rightarrow> state list" where
  "process_call_renders s out =
     (let s1 = commit (effects (handleProcessFile s)) s;
          s2 = commit (effects (handleProcessFile_resume out)) s1
      in [s1, s2])"

text \<open>The events of the view, and the number of process requests in flight.\<close>

datatype ui_event =
    ChangeSchema jsstring
  | ChangePrompt jsstring
  | SelectFiles "jsfile list"
  | ClickProcess
  | ProcessSettled outcome
  | ClickTry
  | TrySettled outcome
  | ClickSave
  | SaveSettled outcome

text \<open>
  One event.  A disabled Process button delivers no click, and a process request settles
  only while one is in flight.  The two text areas call their setters with the new text.
\<close>

fun ui_step ::
  "(jsstring \<Rightarrow> jsstring) \<Rightarrow> (jsfile \<Rightarrow> jsstring) \<Rightarrow> ui_event \<Rightarrow> state \<times> nat \<Rightarrow> state \<times> nat"
where
  "ui_step lc mk (ChangeSchema v) (s, n) = (commit [SetSchemaJson v] s, n)"
| "ui_step lc mk (ChangePrompt v) (s, n) = (commit [SetUserPrompt v] s, n)"
| "ui_step lc mk (SelectFiles fs) (s, n) = (commit (effects (handleFileUpload lc mk fs)) s, n)"
| "ui_step lc mk ClickProcess (s, n) =
     (if submit_disabled s then (s, n)
      else (commit (effects (handleProcessFile s)) s,
            n + length (requests_of (effects (handleProcessFile s)))))"
| "ui_step lc mk (ProcessSettled out) (s, n) =
     (if n = 0 then (s, n)
      else (commit (effects (handleProcessFile_resume out)) s, n - 1))"
| "ui_step lc mk ClickTry (s, n) = (commit (effects (handleTryPrompt s)) s, n)"
| "ui_step lc mk (TrySettled out) (s, n) = (commit (effects (handleTryPrompt_resume out)) s, n)"
| "ui_step lc mk ClickSave (s, n) = (commit (effects (handleSavePrompt s)) s, n)"
| "ui_step lc mk (SaveSettled out) (s, n) = (commit (effects (handleSavePrompt_resume out)) s, n)"

definition run ::
  "(jsstring \<Rightarrow> jsstring) \<Rightarrow> (jsfile \<Rightarrow> jsstring) \<Rightarrow> ui_event list \<Rightarrow> state \<times> nat" where
  "run lc mk evs = foldl (\<lambda>\<sigma> ev. ui_step lc mk ev \<sigma>) (initial_state, 0) evs"

text \<open>
  The metadata carries a layout as far as the Save guard is concerned: \<open>metadata.layout\<close>
  can be read and is truthy.
\<close>

definition has_layout :: "jsval \<Rightarrow> bool" where
  "has_layout m = (case get_prop m (u16 ''layout'') of Inl e \<Rightarrow> False | Inr v \<Rightarrow> js_truthy v)"

text \<open>The event is a process request settling with a successful response.\<close>

fun successful_settle :: "ui_event \<Rightarrow> bool" where
  "successful_settle (ProcessSettled (Resolved data)) = succeeded data"
| "successful_settle ev = False"

subsection \<open>Sample inputs\<close>

definition invoice_pdf :: jsfile where
  "invoice_pdf = File (u16 ''invoice.pdf'') [0x25, 0x50, 0x44, 0x46]"

definition ready_state :: state where
  "ready_state =
     initial_state\<lparr>uploadedFile := Some invoice_pdf, fileType := u16 ''pdf'',
                    pdfUrl := Some (u16 ''blob:1''), schemaJson := u16 ''{\"order_id\":\"\"}''\<rparr>"

definition success_data :: jsval where
  "success_data =
     JObj [(u16 ''status'', JStr (u16 ''success'')),
           (u16 ''metadata'', JObj [(u16 ''layout'', JStr (u16 ''invoice''))]),
           (u16 ''structured_markdown'', JStr (u16 ''# Invoice'')),
           (u16 ''generated_json'', JObj [(u16 ''order_id'', JStr (u16 ''123''))]),
           (u16 ''suggested_prompt'', JStr (u16 ''Summarize the invoice''))]"

definition success_data_null_prompt :: jsval where
  "success_data_null_prompt =
     JObj [(u16 ''status'', JStr (u16 ''success'')),
           (u16 ''metadata'', JObj [(u16 ''layout'', JStr (u16 ''invoice''))]),
           (u16 ''structured_markdown'', JStr (u16 ''# Invoice'')),
           (u16 ''generated_json'', JObj [(u16 ''order_id'', JStr (u16 ''123''))]),
           (u16 ''suggested_prompt'', JNull)]"

definition failure_data :: jsval where
  "failure_data =
     JObj [(u16 ''status'', JStr (u16 ''error'')),
           (u16 ''message'', JStr (u16 ''bad schema''))]"

definition processed_state :: state where
  "processed_state =
     ready_state\<lparr>metadata := JObj [(u16 ''layout'', JStr (u16 ''invoice''))],
                  description := JStr (u16 ''# Invoice''),
                  generatedJson := JObj [(u16 ''order_id'', JStr (u16 ''123''))],
                  suggestedPrompt := JStr (u16 ''Summarize the invoice'')\<rparr>"

definition success_data_bare :: jsval where
  "success_data_bare = JObj [(u16 ''status'', JStr (u16 ''success''))]"

definition network_error :: js_error where
  "network_error = AxiosError (u16 ''Network Error'') None"

text \<open>The server answers with status code 400 and the body \<open>failure_data\<close>.\<close>

definition bad_request_error :: js_error where
  "bad_request_error = AxiosError (u16 ''Request failed with status code 400'') (Some failure_data)"

definition failure_data_list_message :: jsval where
  "failure_data_list_message =
     JObj [(u16 ''status'', JStr (u16 ''error'')),
           (u16 ''message'',
            JArr [JStr (u16 ''bad schema''), JNull, JNum (Num False (u16 ''1e+21'')),
                  JObj [(u16 ''field'', JStr (u16 ''order_id''))]])]"

definition failure_data_no_message :: jsval where
  "failure_data_no_message = JObj [(u16 ''status'', JStr (u16 ''error''))]"

definition failure_data_unprintable :: jsval where
  "failure_data_unprintable =
     JObj [(u16 ''status'', JStr (u16 ''error'')),
           (u16 ''message'', JObj [(u16 ''toString'', JNum (Num False (u16 ''1'')))])]"

definition no_file_blank_schema_state :: state where
  "no_file_blank_schema_state = initial_state\<lparr>schemaJson := [0x20, 0x0A]\<rparr>"

definition blank_schema_state :: state where
  "blank_schema_state = ready_state\<lparr>schemaJson := [0x20, 0x09, 0x0A]\<rparr>"

definition prompt_state :: state where
  "prompt_state = processed_state\<lparr>userPrompt := u16 ''summarize''\<rparr>"

definition blank_prompt_state :: state where
  "blank_prompt_state = processed_state\<lparr>userPrompt := [0x20]\<rparr>"

definition unprocessed_prompt_state :: state where
  "unprocessed_prompt_state = initial_state\<lparr>userPrompt := u16 ''summarize''\<rparr>"

definition zero_layout_state :: state where
  "zero_layout_state = prompt_state\<lparr>metadata := JObj [(u16 ''layout'', JNum (Num True (u16 ''0'')))]\<rparr>"

definition null_metadata_state :: state where
  "null_metadata_state = prompt_state\<lparr>metadata := JNull\<rparr>"

definition try_data :: jsval where
  "try_data = JObj [(u16 ''result'', JObj [(u16 ''ok'', JBool True)])]"

section \<open>Basic facts\<close>

lemma all_dropWhile: "(\<forall>x\<in>set (dropWhile P s). P x) \<longleftrightarrow> (\<forall>x\<in>set s. P x)"
proof
  assume a: "\<forall>x\<in>set (dropWhile P s). P x"
  have "dropWhile P s = []"
  proof (rule ccontr)
    assume n: "dropWhile P s \<noteq> []"
    then have "\<not> P (hd (dropWhile P s))" by (rule hd_dropWhile)
    moreover have "hd (dropWhile P s) \<in> set (dropWhile P s)" using n by simp
    ultimately show False using a by blast
  qed
  then show "\<forall>x\<in>set s. P x" by (simp add: dropWhile_eq_Nil_conv)
next
  assume "\<forall>x\<in>set s. P x"
  then show "\<forall>x\<in>set (dropWhile P s). P x" by (meson set_dropWhileD)
qed

lemma trim_empty_iff_blank: "js_trim s = [] \<longleftrightarrow> blank s"
  by (simp add: js_trim_def blank_def list_all_iff all_dropWhile)

lemmas comp_defs = ret_def throw_def lift_def emit_def cbind_def cseq_def try_catch_def
  try_finally_def effects_def uncaught_def

lemma get_prop_total: "get_prop v k = Inr x \<Longrightarrow> get_prop v k' = Inr (read_prop v k')"
  by (cases v) (simp_all add: read_prop_def)

lemma process_response_success:
  assumes "succeeded data"
  shows "process_response data =
    ([SetMetadata (read_prop data (u16 ''metadata'')),
      SetDescription (read_prop data (u16 ''structured_markdown'')),
      SetGeneratedJson (read_prop data (u16 ''generated_json'')),
      SetSuggestedPrompt (js_or (read_prop data (u16 ''suggested_prompt'')) (JStr []))], Inr ())"
  using assms get_prop_total [of data "u16 ''status''"]
  by (simp add: succeeded_def process_response_def comp_defs)

lemma process_response_failure:
  assumes "get_prop data (u16 ''status'') = Inr st" and "st \<noteq> JStr (u16 ''success'')"
  shows "process_response data =
    (case js_to_string (read_prop data (u16 ''message'')) of
       Inl e \<Rightarrow> ([], Inl e)
     | Inr t \<Rightarrow> ([Alert (CROSS_MARK # u16 '' Error: '' @ t)], Inr ()))"
  using assms get_prop_total [OF assms(1)]
  by (simp add: process_response_def comp_defs split: sum.splits)

lemma process_response_throw:
  assumes "get_prop data (u16 ''status'') = Inl e"
  shows "process_response data = ([], Inl e)"
  using assms by (simp add: process_response_def comp_defs)

lemma resume_success:
  assumes "succeeded data"
  shows "effects (handleProcessFile_resume (Resolved data)) =
    [SetMetadata (read_prop data (u16 ''metadata'')),
      SetDescription (read_prop data (u16 ''structured_markdown'')),
      SetGeneratedJson (read_prop data (u16 ''generated_json'')),
      SetSuggestedPrompt (js_or (read_prop data (u16 ''suggested_prompt'')) (JStr [])),
      SetLoading False]"
  by (simp add: handleProcessFile_resume_def process_response_success [OF assms] comp_defs)

lemma resume_failure:
  assumes "get_prop data (u16 ''status'') = Inr st" and "st \<noteq> JStr (u16 ''success'')"
  shows "effects (handleProcessFile_resume (Resolved data)) =
    (case js_to_string (read_prop data (u16 ''message'')) of
       Inl e \<Rightarrow> [ConsoleError e, Alert (CROSS_MARK # u16 '' API call failed: '' @ message e),
                 SetLoading False]
     | Inr t \<Rightarrow> [Alert (CROSS_MARK # u16 '' Error: '' @ t), SetLoading False])"
  by (simp add: handleProcessFile_resume_def process_response_failure [OF assms] comp_defs
        split: sum.splits)

lemma resume_throw:
  assumes "get_prop data (u16 ''status'') = Inl e"
  shows "effects (handleProcessFile_resume (Resolved data)) =
    [ConsoleError e, Alert (CROSS_MARK # u16 '' API call failed: '' @ message e), SetLoading False]"
  by (simp add: handleProcessFile_resume_def process_response_throw [OF assms] comp_defs)

lemma resume_rejected:
  "effects (handleProcessFile_resume (Rejected e)) =
    [ConsoleError e, Alert (CROSS_MARK # u16 '' API call failed: '' @ message e), SetLoading False]"
  by (simp add: handleProcessFile_resume_def comp_defs)

text \<open>Whatever the outcome, the run after the await is one of the four shapes.\<close>

lemma resume_cases:
  obtains (success) data where "out = Resolved data" "succeeded data"
  | (failure) data st where "out = Resolved data" "get_prop data (u16 ''status'') = Inr st"
      "st \<noteq> JStr (u16 ''success'')"
  | (threw) data e where "out = Resolved data" "get_prop data (u16 ''status'') = Inl e"
  | (rejected) e where "out = Rejected e"
proof (cases out)
  case (Resolved data)
  show ?thesis
  proof (cases "get_prop data (u16 ''status'')")
    case (Inl e)
    with Resolved show ?thesis by (rule threw)
  next
    case (Inr st)
    show ?thesis
    proof (cases "st = JStr (u16 ''success'')")
      case True
      with Inr have "succeeded data" by (simp add: succeeded_def)
      with Resolved show ?thesis by (rule success)
    next
      case False
      with Resolved Inr show ?thesis by (rule failure)
    qed
  qed
next
  case (Rejected e)
  then show ?thesis by (rule rejected)
qed

lemma start_effects:
  "effects (handleProcessFile s) =
     (case uploadedFile s of
        None \<Rightarrow> [Alert (CROSS_MARK # u16 '' Please upload a file first.'')]
      | Some f \<Rightarrow>
          if blank (schemaJson s)
          then [Alert (CROSS_MARK # u16 '' Please provide schema JSON in the textarea.'')]
          else [SetLoading True,
                Post (BASE @ u16 ''/process-document/'')
                  (Multipart [(u16 ''file'', FilePart f),
                              (u16 ''schema_json'', TextPart (schemaJson s))])])"
  by (simp add: handleProcessFile_def trim_empty_iff_blank comp_defs split: option.splits)

lemma start_four_fields: "four_fields (commit (effects (handleProcessFile s)) s) = four_fields s"
  by (simp add: start_effects commit_def four_fields_def split: option.splits)

lemma resume_success_fields:
  assumes "succeeded data"
  shows "four_fields (commit (effects (handleProcessFile_resume (Resolved data))) s) =
           (read_prop data (u16 ''metadata''),
            read_prop data (u16 ''structured_markdown''),
            read_prop data (u16 ''generated_json''),
            js_or (read_prop data (u16 ''suggested_prompt'')) (JStr []))"
  by (simp add: resume_success [OF assms] commit_def four_fields_def)

section \<open>The process call\<close>

text \<open>
  C1, as the code has it.  When the response's status is the success value, the run after
  the \<open>await\<close> calls the four setters and then resets the loading flag, with no
  suspension in between, so whatever the state was when the response arrived, one render
  shows all four result fields replaced: metadata, description and generated JSON by the
  response's values, the suggested prompt by the response's value when that is truthy and
  by the empty string otherwise.  Every state rendered in the course of the call has either
  all four fields as they were before it or all four as the response gives them.
\<close>

theorem process_success_replaces_fields:
  assumes "succeeded data"
  shows "effects (handleProcessFile_resume (Resolved data)) =
           [SetMetadata (read_prop data (u16 ''metadata'')),
            SetDescription (read_prop data (u16 ''structured_markdown'')),
            SetGeneratedJson (read_prop data (u16 ''generated_json'')),
            SetSuggestedPrompt (js_or (read_prop data (u16 ''suggested_prompt'')) (JStr [])),
            SetLoading False]
       \<and> four_fields (commit (effects (handleProcessFile_resume (Resolved data))) s) =
           (read_prop data (u16 ''metadata''),
            read_prop data (u16 ''structured_markdown''),
            read_prop data (u16 ''generated_json''),
            js_or (read_prop data (u16 ''suggested_prompt'')) (JStr []))
       \<and> (\<forall>r \<in> set (process_call_renders s (Resolved data)).
             four_fields r = four_fields s \<or>
             four_fields r =
               (read_prop data (u16 ''metadata''),
                read_prop data (u16 ''structured_markdown''),
                read_prop data (u16 ''generated_json''),
                js_or (read_prop data (u16 ''suggested_prompt'')) (JStr [])))"
proof -
  note run = resume_success [OF assms]
  note new = resume_success_fields [OF assms]
  have renders: "\<forall>r \<in> set (process_call_renders s (Resolved data)).
             four_fields r = four_fields s \<or>
             four_fields r =
               (read_prop data (u16 ''metadata''),
                read_prop data (u16 ''structured_markdown''),
                read_prop data (u16 ''generated_json''),
                js_or (read_prop data (u16 ''suggested_prompt'')) (JStr []))"
    by (simp add: process_call_renders_def Let_def start_four_fields new)
  show ?thesis by (rule conjI [OF run conjI [OF new renders]])
qed

text \<open>The sample response on the sample state: the four fields after the call are the response's.\<close>

theorem process_success_replaces_fields_witness:
  "succeeded success_data
   \<and> four_fields (commit (effects (handleProcessFile_resume (Resolved success_data))) ready_state) =
       four_fields processed_state
   \<and> map four_fields (process_call_renders ready_state (Resolved success_data)) =
       [four_fields ready_state, four_fields processed_state]"
proof -
  have ok: "succeeded success_data"
    by (simp add: succeeded_def success_data_def u16_def)
  have rd: "read_prop success_data (u16 ''metadata'') = JObj [(u16 ''layout'', JStr (u16 ''invoice''))]"
       "read_prop success_data (u16 ''structured_markdown'') = JStr (u16 ''# Invoice'')"
       "read_prop success_data (u16 ''generated_json'') = JObj [(u16 ''order_id'', JStr (u16 ''123''))]"
       "js_or (read_prop success_data (u16 ''suggested_prompt'')) (JStr []) = JStr (u16 ''Summarize the invoice'')"
    by (simp_all add: read_prop_def success_data_def u16_def js_or_def)
  have pf: "four_fields processed_state =
     (JObj [(u16 ''layout'', JStr (u16 ''invoice''))], JStr (u16 ''# Invoice''),
      JObj [(u16 ''order_id'', JStr (u16 ''123''))], JStr (u16 ''Summarize the invoice''))"
    by (simp add: four_fields_def processed_state_def)
  from process_success_replaces_fields [OF ok, of ready_state]
  have a: "four_fields (commit (effects (handleProcessFile_resume (Resolved success_data))) ready_state) =
           (read_prop success_data (u16 ''metadata''),
            read_prop success_data (u16 ''structured_markdown''),
            read_prop success_data (u16 ''generated_json''),
            js_or (read_prop success_data (u16 ''suggested_prompt'')) (JStr []))"
    by blast
  have b: "map four_fields (process_call_renders ready_state (Resolved success_data)) =
       [four_fields ready_state, four_fields processed_state]"
    by (simp add: process_call_renders_def Let_def start_four_fields
          resume_success_fields [OF ok] rd pf)
  show ?thesis using ok a b by (simp add: rd pf)
qed

text \<open>
  C1 as stated says the suggested prompt is replaced with the value from the response.  A
  successful response whose \<open>suggested_prompt\<close> is \<open>null\<close> leaves the empty string in the
  state, not \<open>null\<close>.
\<close>

theorem process_success_null_prompt_counterexample:
  "succeeded success_data_null_prompt
   \<and> read_prop success_data_null_prompt (u16 ''suggested_prompt'') = JNull
   \<and> suggestedPrompt (commit (effects (handleProcessFile_resume (Resolved success_data_null_prompt)))
        ready_state) = JStr []
   \<and> suggestedPrompt (commit (effects (handleProcessFile_resume (Resolved success_data_null_prompt)))
        ready_state) \<noteq> read_prop success_data_null_prompt (u16 ''suggested_prompt'')"
proof -
  have ok: "succeeded success_data_null_prompt"
    by (simp add: succeeded_def success_data_null_prompt_def u16_def)
  have rd: "read_prop success_data_null_prompt (u16 ''suggested_prompt'') = JNull"
    by (simp add: read_prop_def success_data_null_prompt_def u16_def)
  show ?thesis
    by (simp add: ok rd resume_success [OF ok] commit_def js_or_def)
qed

text \<open>
  A call that does not end in a successful response leaves the four result fields alone:
  a response with another status, a response whose data is \<open>null\<close> or \<open>undefined\<close>
  (reading its status throws, and the \<open>catch\<close> takes over), a rejected request.
\<close>

lemma resume_unsuccessful_keeps_fields:
  assumes "\<And>data. out = Resolved data \<Longrightarrow> \<not> succeeded data"
  shows "four_fields (commit (effects (handleProcessFile_resume out)) s) = four_fields s"
proof (cases out rule: resume_cases)
  case (success data)
  with assms show ?thesis by blast
next
  case (failure data st)
  then show ?thesis
    by (simp add: resume_failure [OF failure(2,3)] commit_def four_fields_def split: sum.splits)
next
  case (threw data e)
  then show ?thesis
    by (simp add: resume_throw [OF threw(2)] commit_def four_fields_def)
next
  case (rejected e)
  then show ?thesis
    by (simp add: resume_rejected commit_def four_fields_def)
qed

lemma renders_unsuccessful_keep_fields:
  assumes "\<And>data. out = Resolved data \<Longrightarrow> \<not> succeeded data"
  shows "\<forall>r \<in> set (process_call_renders s out). four_fields r = four_fields s"
  by (simp add: process_call_renders_def Let_def start_four_fields
        resume_unsuccessful_keeps_fields [OF assms])

lemma starts_with_append: "starts_with (m @ post) m"
  by (induction m) simp_all

lemma js_includes_append: "js_includes (pre @ m @ post) m"
proof (induction pre)
  case Nil
  show ?case by (cases "m @ post") (use starts_with_append [of m post] in auto)
next
  case (Cons a pre)
  then show ?case by simp
qed

text \<open>
  C2, as the code has it.  When the request resolves with a response whose status is
  other than the success value, exactly one alert is raised.  Its text is \<open>Error:\<close>
  (after the cross mark) followed by the server's message when that is a string, so it
  contains the message; for any other message that JavaScript can convert to a string, it
  is the same prefix followed by the conversion; and when the conversion throws, it is the
  text of the \<open>catch\<close> with the thrown error's message.  When the request is rejected (no
  answer, or an answer with an error status, whatever its body says), one alert carries
  the message of the error that axios rejected with.  In all these cases the four result
  fields are the same after the call as before it, in every state rendered in its course.
\<close>

theorem process_failure_alerts_and_keeps_fields:
  assumes "get_prop data (u16 ''status'') = Inr st" and "st \<noteq> JStr (u16 ''success'')"
  shows "length (alerts_of (effects (handleProcessFile_resume (Resolved data)))) = 1
       \<and> (read_prop data (u16 ''message'') = JStr m \<longrightarrow>
            alerts_of (effects (handleProcessFile_resume (Resolved data))) =
              [CROSS_MARK # u16 '' Error: '' @ m]
          \<and> js_includes (CROSS_MARK # u16 '' Error: '' @ m) m)
       \<and> (js_to_string (read_prop data (u16 ''message'')) = Inr t \<longrightarrow>
            alerts_of (effects (handleProcessFile_resume (Resolved data))) =
              [CROSS_MARK # u16 '' Error: '' @ t])
       \<and> (js_to_string (read_prop data (u16 ''message'')) = Inl e' \<longrightarrow>
            alerts_of (effects (handleProcessFile_resume (Resolved data))) =
              [CROSS_MARK # u16 '' API call failed: '' @ message e'])
       \<and> four_fields (commit (effects (handleProcessFile_resume (Resolved data))) s) = four_fields s
       \<and> (\<forall>r \<in> set (process_call_renders s (Resolved data)). four_fields r = four_fields s)
       \<and> alerts_of (effects (handleProcessFile_resume (Rejected e))) =
           [CROSS_MARK # u16 '' API call failed: '' @ message e]
       \<and> four_fields (commit (effects (handleProcessFile_resume (Rejected e))) s) = four_fields s
       \<and> (\<forall>r \<in> set (process_call_renders s (Rejected e)). four_fields r = four_fields s)"
proof -
  have ns: "\<And>d. Resolved data = Resolved d \<Longrightarrow> \<not> succeeded d"
    using assms by (simp add: succeeded_def)
  have nr: "\<And>d. Rejected e = Resolved d \<Longrightarrow> \<not> succeeded d"
    by simp
  have a0: "length (alerts_of (effects (handleProcessFile_resume (Resolved data)))) = 1"
    by (simp add: resume_failure [OF assms] split: sum.splits)
  have a1: "read_prop data (u16 ''message'') = JStr m \<longrightarrow>
            alerts_of (effects (handleProcessFile_resume (Resolved data))) =
              [CROSS_MARK # u16 '' Error: '' @ m]
          \<and> js_includes (CROSS_MARK # u16 '' Error: '' @ m) m"
    using js_includes_append [of "CROSS_MARK # u16 '' Error: ''" m "[]"]
    by (simp add: resume_failure [OF assms])
  have a2: "js_to_string (read_prop data (u16 ''message'')) = Inr t \<longrightarrow>
            alerts_of (effects (handleProcessFile_resume (Resolved data))) =
              [CROSS_MARK # u16 '' Error: '' @ t]"
    by (simp add: resume_failure [OF assms])
  have a3: "js_to_string (read_prop data (u16 ''message'')) = Inl e' \<longrightarrow>
            alerts_of (effects (handleProcessFile_resume (Resolved data))) =
              [CROSS_MARK # u16 '' API call failed: '' @ message e']"
    by (simp add: resume_failure [OF assms])
  have a4: "alerts_of (effects (handleProcessFile_resume (Rejected e))) =
           [CROSS_MARK # u16 '' API call failed: '' @ message e]"
    by (simp add: resume_rejected)
  note f1 = resume_unsuccessful_keeps_fields [of "Resolved data" s, OF ns]
  note r1 = renders_unsuccessful_keep_fields [of "Resolved data" s, OF ns]
  note f2 = resume_unsuccessful_keeps_fields [of "Rejected e" s, OF nr]
  note r2 = renders_unsuccessful_keep_fields [of "Rejected e" s, OF nr]
  show ?thesis
    by (rule conjI [OF a0 conjI [OF a1 conjI [OF a2 conjI [OF a3
          conjI [OF f1 conjI [OF r1 conjI [OF a4 conjI [OF f2 r2]]]]]]]])
qed

text \<open>
  After an earlier successful call.  The response \<open>{status: "error", message: "bad schema"}\<close>
  is alerted as \<open>Error: bad schema\<close>; a message that is the list
  \<open>["bad schema", null, 1e+21, {field: "order_id"}]\<close> as
  \<open>Error: bad schema,,1e+21,[object Object]\<close>; an absent message as
  \<open>Error: undefined\<close>; a message \<open>{toString: 1}\<close> cannot be converted, and the alert is
  that of the \<open>catch\<close>; a network error is alerted with its own message.  The earlier
  results stay throughout.
\<close>

theorem process_failure_alerts_and_keeps_fields_witness:
  "get_prop failure_data (u16 ''status'') = Inr (JStr (u16 ''error''))
   \<and> JStr (u16 ''error'') \<noteq> JStr (u16 ''success'')
   \<and> alerts_of (effects (handleProcessFile_resume (Resolved failure_data))) =
       [CROSS_MARK # u16 '' Error: bad schema'']
   \<and> js_includes (CROSS_MARK # u16 '' Error: bad schema'') (u16 ''bad schema'')
   \<and> four_fields (commit (effects (handleProcessFile_resume (Resolved failure_data))) processed_state) =
       four_fields processed_state
   \<and> map four_fields (process_call_renders processed_state (Resolved failure_data)) =
       [four_fields processed_state, four_fields processed_state]
   \<and> alerts_of (effects (handleProcessFile_resume (Resolved failure_data_list_message))) =
       [CROSS_MARK # u16 '' Error: bad schema,,1e+21,[object Object]'']
   \<and> alerts_of (effects (handleProcessFile_resume (Resolved failure_data_no_message))) =
       [CROSS_MARK # u16 '' Error: undefined'']
   \<and> alerts_of (effects (handleProcessFile_resume (Resolved failure_data_unprintable))) =
       [CROSS_MARK # u16 '' API call failed: Cannot convert object to primitive value'']
   \<and> alerts_of (effects (handleProcessFile_resume (Rejected network_error))) =
       [CROSS_MARK # u16 '' API call failed: Network Error'']
   \<and> four_fields (commit (effects (handleProcessFile_resume (Rejected network_error))) processed_state) =
       four_fields processed_state"
proof -
  have ne: "JStr (u16 ''error'') \<noteq> JStr (u16 ''success'')"
    by (simp add: u16_def)
  have h1: "get_prop failure_data (u16 ''status'') = Inr (JStr (u16 ''error''))"
    by (simp add: failure_data_def u16_def)
  have m1: "read_prop failure_data (u16 ''message'') = JStr (u16 ''bad schema'')"
    by (simp add: read_prop_def failure_data_def u16_def)
  have h2: "get_prop failure_data_list_message (u16 ''status'') = Inr (JStr (u16 ''error''))"
    by (simp add: failure_data_list_message_def u16_def)
  have m2: "js_to_string (read_prop failure_data_list_message (u16 ''message'')) =
              Inr (u16 ''bad schema,,1e+21,[object Object]'')"
    by (simp add: read_prop_def failure_data_list_message_def u16_def)
  have h3: "get_prop failure_data_no_message (u16 ''status'') = Inr (JStr (u16 ''error''))"
    by (simp add: failure_data_no_message_def u16_def)
  have m3: "js_to_string (read_prop failure_data_no_message (u16 ''message'')) =
              Inr (u16 ''undefined'')"
    by (simp add: read_prop_def failure_data_no_message_def u16_def)
  have h4: "get_prop failure_data_unprintable (u16 ''status'') = Inr (JStr (u16 ''error''))"
    by (simp add: failure_data_unprintable_def u16_def)
  have m4: "js_to_string (read_prop failure_data_unprintable (u16 ''message'')) =
              Inl (TypeError NOT_PRIMITIVE)"
    by (simp add: read_prop_def failure_data_unprintable_def u16_def)
  note t1 = process_failure_alerts_and_keeps_fields
              [OF h1 ne, of "u16 ''bad schema''" "u16 ''bad schema''" "TypeError []"
                 processed_state network_error]
  note t2 = process_failure_alerts_and_keeps_fields
              [OF h2 ne, of "[]" "u16 ''bad schema,,1e+21,[object Object]''" "TypeError []"
                 processed_state network_error]
  note t3 = process_failure_alerts_and_keeps_fields
              [OF h3 ne, of "[]" "u16 ''undefined''" "TypeError []" processed_state network_error]
  note t4 = process_failure_alerts_and_keeps_fields
              [OF h4 ne, of "[]" "[]" "TypeError NOT_PRIMITIVE" processed_state network_error]
  have c1: "alerts_of (effects (handleProcessFile_resume (Resolved failure_data))) =
              [CROSS_MARK # u16 '' Error: '' @ u16 ''bad schema'']"
    and c2: "js_includes (CROSS_MARK # u16 '' Error: '' @ u16 ''bad schema'') (u16 ''bad schema'')"
    and c3: "four_fields (commit (effects (handleProcessFile_resume (Resolved failure_data))) processed_state) =
              four_fields processed_state"
    and c4: "\<forall>r \<in> set (process_call_renders processed_state (Resolved failure_data)).
              four_fields r = four_fields processed_state"
    and c5: "alerts_of (effects (handleProcessFile_resume (Rejected network_error))) =
              [CROSS_MARK # u16 '' API call failed: '' @ message network_error]"
    and c6: "four_fields (commit (effects (handleProcessFile_resume (Rejected network_error))) processed_state) =
              four_fields processed_state"
    using t1 m1 by blast+
  have c7: "alerts_of (effects (handleProcessFile_resume (Resolved failure_data_list_message))) =
              [CROSS_MARK # u16 '' Error: '' @ u16 ''bad schema,,1e+21,[object Object]'']"
    using t2 m2 by blast
  have c8: "alerts_of (effects (handleProcessFile_resume (Resolved failure_data_no_message))) =
              [CROSS_MARK # u16 '' Error: '' @ u16 ''undefined'']"
    using t3 m3 by blast
  have c9: "alerts_of (effects (handleProcessFile_resume (Resolved failure_data_unprintable))) =
              [CROSS_MARK # u16 '' API call failed: '' @ message (TypeError NOT_PRIMITIVE)]"
    using t4 m4 by blast
  have c4': "map four_fields (process_call_renders processed_state (Resolved failure_data)) =
       [four_fields processed_state, four_fields processed_state]"
    using c4 by (simp add: process_call_renders_def Let_def)
  have u: "\<And>a b. u16 a @ u16 b = u16 (a @ b)"
    by (simp add: u16_def)
  show ?thesis
    using ne h1 c1 c2 c3 c4' c5 c6 c7 c8 c9
    by (simp add: u network_error_def NOT_PRIMITIVE_def)
qed

text \<open>
  C2 as stated has the server's message in the alert for every response with a status other
  than the success value.  When the server answers with status code 400 and the body
  \<open>{status: "error", message: "bad schema"}\<close>, axios rejects the request, and the alert
  carries the message of axios, which does not contain \<open>bad schema\<close>.
\<close>

theorem process_error_status_hides_message_counterexample:
  "bad_request_error = AxiosError (u16 ''Request failed with status code 400'') (Some failure_data)
   \<and> get_prop failure_data (u16 ''status'') = Inr (JStr (u16 ''error''))
   \<and> JStr (u16 ''error'') \<noteq> JStr (u16 ''success'')
   \<and> read_prop failure_data (u16 ''message'') = JStr (u16 ''bad schema'')
   \<and> alerts_of (effects (handleProcessFile_resume (Rejected bad_request_error))) =
       [CROSS_MARK # u16 '' API call failed: Request failed with status code 400'']
   \<and> \<not> js_includes (CROSS_MARK # u16 '' API call failed: Request failed with status code 400'')
         (u16 ''bad schema'')"
proof -
  have a: "alerts_of (effects (handleProcessFile_resume (Rejected bad_request_error))) =
       [CROSS_MARK # u16 '' API call failed: Request failed with status code 400'']"
    by (simp add: resume_rejected bad_request_error_def u16_def)
  have b: "\<not> js_includes (CROSS_MARK # u16 '' API call failed: Request failed with status code 400'')
         (u16 ''bad schema'')"
    by (simp add: u16_def CROSS_MARK_def)
  have c: "get_prop failure_data (u16 ''status'') = Inr (JStr (u16 ''error''))"
          "read_prop failure_data (u16 ''message'') = JStr (u16 ''bad schema'')"
          "JStr (u16 ''error'') \<noteq> JStr (u16 ''success'')"
    by (simp_all add: read_prop_def failure_data_def u16_def)
  show ?thesis using a b c by (simp add: bad_request_error_def)
qed

text \<open>
  C3.  With no file selected the missing-file alert is raised, whatever the schema text is;
  with a file selected and a schema text that is empty or white space only, the
  missing-schema alert is raised.  In both cases the alert is all the handler does: no
  request is issued and the state is unchanged.
\<close>

theorem process_preconditions_block:
  "(uploadedFile s = None \<longrightarrow>
      effects (handleProcessFile s) = [Alert (CROSS_MARK # u16 '' Please upload a file first.'')])
   \<and> (uploadedFile s \<noteq> None \<and> blank (schemaJson s) \<longrightarrow>
      effects (handleProcessFile s) =
        [Alert (CROSS_MARK # u16 '' Please provide schema JSON in the textarea.'')])
   \<and> (uploadedFile s = None \<or> blank (schemaJson s) \<longrightarrow>
        requests_of (effects (handleProcessFile s)) = []
      \<and> commit (effects (handleProcessFile s)) s = s)"
  by (auto simp: start_effects commit_def split: option.splits)

text \<open>No file and a blank schema: the missing-file alert.  A file and a blank schema: the missing-schema alert.\<close>

theorem process_preconditions_block_witness:
  "uploadedFile no_file_blank_schema_state = None
   \<and> blank (schemaJson no_file_blank_schema_state)
   \<and> effects (handleProcessFile no_file_blank_schema_state) =
       [Alert (CROSS_MARK # u16 '' Please upload a file first.'')]
   \<and> requests_of (effects (handleProcessFile no_file_blank_schema_state)) = []
   \<and> uploadedFile blank_schema_state = Some invoice_pdf
   \<and> blank (schemaJson blank_schema_state)
   \<and> effects (handleProcessFile blank_schema_state) =
       [Alert (CROSS_MARK # u16 '' Please provide schema JSON in the textarea.'')]
   \<and> requests_of (effects (handleProcessFile blank_schema_state)) = []"
proof -
  have a: "uploadedFile no_file_blank_schema_state = None"
    by (simp add: no_file_blank_schema_state_def initial_state_def)
  have b: "blank (schemaJson no_file_blank_schema_state)"
    by (simp add: no_file_blank_schema_state_def blank_def is_ws_def)
  have c: "uploadedFile blank_schema_state = Some invoice_pdf"
    by (simp add: blank_schema_state_def ready_state_def)
  have d: "blank (schemaJson blank_schema_state)"
    by (simp add: blank_schema_state_def blank_def is_ws_def)
  from process_preconditions_block [of no_file_blank_schema_state]
       process_preconditions_block [of blank_schema_state]
  show ?thesis using a b c d by simp
qed

text \<open>
  C10.  After a successful response the suggested prompt is the empty string whenever the
  response's \<open>suggested_prompt\<close> is absent, \<open>null\<close> or otherwise falsy, and it is never
  \<open>undefined\<close> or \<open>null\<close>; metadata, description and generated JSON are what the
  response carried, \<open>undefined\<close> included when the field is absent.
\<close>

theorem success_normalises_only_suggested_prompt:
  assumes "succeeded data"
  shows "(\<not> js_truthy (read_prop data (u16 ''suggested_prompt'')) \<longrightarrow>
            suggestedPrompt (commit (effects (handleProcessFile_resume (Resolved data))) s) = JStr [])
       \<and> suggestedPrompt (commit (effects (handleProcessFile_resume (Resolved data))) s) \<noteq> JUndefined
       \<and> suggestedPrompt (commit (effects (handleProcessFile_resume (Resolved data))) s) \<noteq> JNull
       \<and> metadata (commit (effects (handleProcessFile_resume (Resolved data))) s) =
           read_prop data (u16 ''metadata'')
       \<and> description (commit (effects (handleProcessFile_resume (Resolved data))) s) =
           read_prop data (u16 ''structured_markdown'')
       \<and> generatedJson (commit (effects (handleProcessFile_resume (Resolved data))) s) =
           read_prop data (u16 ''generated_json'')"
  by (auto simp: resume_success [OF assms] commit_def js_or_def)

text \<open>A successful response that carries the status only.\<close>

theorem success_normalises_only_suggested_prompt_witness:
  "succeeded success_data_bare
   \<and> \<not> js_truthy (read_prop success_data_bare (u16 ''suggested_prompt''))
   \<and> suggestedPrompt (commit (effects (handleProcessFile_resume (Resolved success_data_bare))) processed_state) = JStr []
   \<and> metadata (commit (effects (handleProcessFile_resume (Resolved success_data_bare))) processed_state) = JUndefined
   \<and> description (commit (effects (handleProcessFile_resume (Resolved success_data_bare))) processed_state) = JUndefined
   \<and> generatedJson (commit (effects (handleProcessFile_resume (Resolved success_data_bare))) processed_state) = JUndefined"
proof -
  have ok: "succeeded success_data_bare"
    by (simp add: succeeded_def success_data_bare_def u16_def)
  have rd: "read_prop success_data_bare (u16 ''suggested_prompt'') = JUndefined"
       "read_prop success_data_bare (u16 ''metadata'') = JUndefined"
       "read_prop success_data_bare (u16 ''structured_markdown'') = JUndefined"
       "read_prop success_data_bare (u16 ''generated_json'') = JUndefined"
    by (simp_all add: read_prop_def success_data_bare_def u16_def)
  from success_normalises_only_suggested_prompt [OF ok, of processed_state]
  show ?thesis using ok by (simp add: rd)
qed

section \<open>The prompt handlers and the file picker\<close>

text \<open>What each remaining run does, as a list.\<close>

lemma try_start_effects:
  "effects (handleTryPrompt s) =
     (if blank (userPrompt s) then []
      else [Post (BASE @ u16 ''/try-prompt/'')
              (Json (JObj [(u16 ''prompt'', JStr (userPrompt s)),
                           (u16 ''structured_markdown'', description s)]))])"
  by (simp add: handleTryPrompt_def trim_empty_iff_blank comp_defs)

lemma try_resume_effects:
  "effects (handleTryPrompt_resume out) =
     (case out of
        Resolved data \<Rightarrow>
          (case get_prop data (u16 ''result'') of
             Inl e \<Rightarrow> [ConsoleError e,
                       SetPromptResult (JObj [(u16 ''error'', JStr (u16 ''Failed to try prompt''))])]
           | Inr r \<Rightarrow> [SetPromptResult r])
      | Rejected e \<Rightarrow>
          [ConsoleError e,
           SetPromptResult (JObj [(u16 ''error'', JStr (u16 ''Failed to try prompt''))])])"
  by (simp add: handleTryPrompt_resume_def comp_defs split: outcome.splits sum.splits)

lemma save_start_effects:
  "effects (handleSavePrompt s) =
     (if blank (userPrompt s) then [Alert (CROSS_MARK # u16 '' Missing prompt or layout'')]
      else (case get_prop (metadata s) (u16 ''layout'') of
              Inl e \<Rightarrow> []
            | Inr v \<Rightarrow>
                if js_truthy v
                then [Post (BASE @ u16 ''/save-prompt/'')
                        (Json (JObj [(u16 ''layout'', v), (u16 ''prompt'', JStr (userPrompt s))]))]
                else [Alert (CROSS_MARK # u16 '' Missing prompt or layout'')]))"
  by (simp add: handleSavePrompt_def trim_empty_iff_blank comp_defs split: sum.splits)

lemma save_resume_effects:
  "effects (handleSavePrompt_resume out) =
     (case out of
        Resolved data \<Rightarrow> [Alert (CHECK_MARK # u16 '' Prompt saved to Supabase!'')]
      | Rejected e \<Rightarrow> [ConsoleError e, Alert (CROSS_MARK # u16 '' Failed to save prompt'')])"
  by (simp add: handleSavePrompt_resume_def comp_defs split: outcome.splits)

lemma upload_effects:
  "effects (handleFileUpload lc mk files) =
     (case files of
        [] \<Rightarrow> []
      | f # rest \<Rightarrow>
          [SetUploadedFile f,
           SetFileType (lc (last (js_split 0x2E (file_name f)))),
           SetPdfUrl (if lc (last (js_split 0x2E (file_name f))) = u16 ''pdf''
                      then Some (mk f) else None)])"
  by (simp add: handleFileUpload_def Let_def comp_defs split: list.splits)

text \<open>
  A save call with a prompt that is not blank, in a state whose metadata is \<open>null\<close> or
  \<open>undefined\<close> (a successful response without metadata stores that): reading the layout
  throws outside the \<open>try\<close>, so the handler ends with nothing alerted and nothing sent.
\<close>

theorem save_nullish_metadata_throws:
  assumes "\<not> blank (userPrompt s)" and "metadata s = JNull \<or> metadata s = JUndefined"
  shows "effects (handleSavePrompt s) = []
       \<and> uncaught (handleSavePrompt s) =
           Some (TypeError (type_error_message (metadata s) (u16 ''layout'')))"
  using assms
  by (auto simp: handleSavePrompt_def trim_empty_iff_blank comp_defs)

theorem save_nullish_metadata_throws_witness:
  "\<not> blank (userPrompt null_metadata_state)
   \<and> metadata null_metadata_state = JNull
   \<and> alerts_of (effects (handleSavePrompt null_metadata_state)) = []
   \<and> requests_of (effects (handleSavePrompt null_metadata_state)) = []
   \<and> uncaught (handleSavePrompt null_metadata_state) =
       Some (TypeError (type_error_message JNull (u16 ''layout'')))"
proof -
  have a: "\<not> blank (userPrompt null_metadata_state)"
    by (simp add: null_metadata_state_def prompt_state_def blank_def u16_def is_ws_def)
  have b: "metadata null_metadata_state = JNull"
    by (simp add: null_metadata_state_def)
  from save_nullish_metadata_throws [of null_metadata_state]
  show ?thesis using a b by simp
qed

text \<open>
  C4, as the code has it.  A process call without a file or with a blank schema raises its
  alert in the run that the click starts and issues no request; so does a save call with a
  blank prompt, or with metadata whose \<open>layout\<close> reads as a falsy value (absent
  included).  A try call with a blank prompt issues no request either, but it reports
  nothing: the handler returns at once.
\<close>

theorem precondition_failures_issue_no_request:
  "(uploadedFile s = None \<or> blank (schemaJson s) \<longrightarrow>
        alerts_of (effects (handleProcessFile s)) =
          [if uploadedFile s = None
           then CROSS_MARK # u16 '' Please upload a file first.''
           else CROSS_MARK # u16 '' Please provide schema JSON in the textarea.'']
      \<and> requests_of (effects (handleProcessFile s)) = [])
   \<and> (blank (userPrompt s) \<longrightarrow> effects (handleTryPrompt s) = [])
   \<and> (blank (userPrompt s) \<or>
       (\<exists>v. get_prop (metadata s) (u16 ''layout'') = Inr v \<and> \<not> js_truthy v) \<longrightarrow>
        alerts_of (effects (handleSavePrompt s)) = [CROSS_MARK # u16 '' Missing prompt or layout'']
      \<and> requests_of (effects (handleSavePrompt s)) = [])"
  by (auto simp: start_effects try_start_effects save_start_effects split: option.splits)

text \<open>
  The initial state fails all three preconditions; a prompt typed before any process call
  fails the layout guard of Save.
\<close>

theorem precondition_failures_issue_no_request_witness:
  "uploadedFile initial_state = None
   \<and> alerts_of (effects (handleProcessFile initial_state)) =
       [CROSS_MARK # u16 '' Please upload a file first.'']
   \<and> requests_of (effects (handleProcessFile initial_state)) = []
   \<and> blank (userPrompt initial_state)
   \<and> effects (handleTryPrompt initial_state) = []
   \<and> alerts_of (effects (handleSavePrompt initial_state)) =
       [CROSS_MARK # u16 '' Missing prompt or layout'']
   \<and> requests_of (effects (handleSavePrompt initial_state)) = []
   \<and> \<not> blank (userPrompt unprocessed_prompt_state)
   \<and> get_prop (metadata unprocessed_prompt_state) (u16 ''layout'') = Inr JUndefined
   \<and> alerts_of (effects (handleSavePrompt unprocessed_prompt_state)) =
       [CROSS_MARK # u16 '' Missing prompt or layout'']
   \<and> requests_of (effects (handleSavePrompt unprocessed_prompt_state)) = []"
proof -
  have a: "uploadedFile initial_state = None" "blank (userPrompt initial_state)"
    by (simp_all add: initial_state_def blank_def)
  have b: "\<not> blank (userPrompt unprocessed_prompt_state)"
    by (simp add: unprocessed_prompt_state_def blank_def u16_def is_ws_def)
  have c: "get_prop (metadata unprocessed_prompt_state) (u16 ''layout'') = Inr JUndefined"
    by (simp add: unprocessed_prompt_state_def initial_state_def)
  have d: "\<exists>v. get_prop (metadata unprocessed_prompt_state) (u16 ''layout'') = Inr v \<and> \<not> js_truthy v"
    using c by simp
  from precondition_failures_issue_no_request [of initial_state]
       precondition_failures_issue_no_request [of unprocessed_prompt_state]
  show ?thesis using a b c d by simp
qed

text \<open>
  C4 as stated has the blank prompt of a try call reported by an alert.  In the initial
  state the prompt is empty, and the try handler raises no alert.
\<close>

theorem try_prompt_blank_is_silent_counterexample:
  "blank (userPrompt initial_state)
   \<and> alerts_of (effects (handleTryPrompt initial_state)) = []"
  by (simp add: try_start_effects initial_state_def blank_def)

text \<open>
  Only a successful process response writes the metadata: over any sequence of events
  without one, the metadata is the empty object of the initial state.
\<close>

lemma step_keeps_metadata:
  assumes "\<not> successful_settle ev"
  shows "metadata (fst (ui_step lc mk ev (s, n))) = metadata s"
proof (cases ev)
  case (ProcessSettled out)
  with assms have "\<And>data. out = Resolved data \<Longrightarrow> \<not> succeeded data" by auto
  from resume_unsuccessful_keeps_fields [where s = s, OF this]
  show ?thesis using ProcessSettled by (simp add: four_fields_def)
next
  case ClickProcess
  from start_four_fields [of s] show ?thesis using ClickProcess by (simp add: four_fields_def)
qed (simp_all add: commit_def upload_effects try_start_effects try_resume_effects
      save_start_effects save_resume_effects
      split: list.splits outcome.splits sum.splits)

lemma run_snoc: "run lc mk (evs @ [ev]) = ui_step lc mk ev (run lc mk evs)"
  by (simp add: run_def)

lemma run_keeps_metadata:
  assumes "\<forall>ev \<in> set evs. \<not> successful_settle ev"
  shows "metadata (fst (run lc mk evs)) = JObj []"
  using assms
proof (induction evs rule: rev_induct)
  case Nil
  show ?case by (simp add: run_def initial_state_def)
next
  case (snoc ev evs)
  obtain s n where sn: "run lc mk evs = (s, n)" by (cases "run lc mk evs")
  from snoc have "metadata s = JObj []" by (simp add: sn)
  moreover from snoc.prems have "\<not> successful_settle ev" by simp
  ultimately show ?case
    using step_keeps_metadata [of ev lc mk s n] by (simp add: run_snoc sn)
qed

lemma empty_metadata_no_layout: "\<not> has_layout (JObj [])"
  by (simp add: has_layout_def)

lemma prompt_state_facts:
  "\<not> blank (userPrompt prompt_state)"
  "get_prop (metadata prompt_state) (u16 ''layout'') = Inr (JStr (u16 ''invoice''))"
  "js_truthy (JStr (u16 ''invoice''))"
  "userPrompt prompt_state = u16 ''summarize''"
  by (simp_all add: prompt_state_def processed_state_def blank_def u16_def is_ws_def)

text \<open>
  C5, as the code has it.  A save call issues no request when the prompt is blank or when
  \<open>metadata.layout\<close> cannot be read or is falsy; that is so in every state reached
  without a successful process response.  When the prompt is not blank and
  \<open>metadata.layout\<close> is truthy, one request goes to the save endpoint, and its body is
  exactly \<open>{layout: metadata.layout, prompt: userPrompt}\<close>.
\<close>

theorem save_prompt_requests:
  "(blank (userPrompt s) \<or> \<not> has_layout (metadata s) \<longrightarrow>
      requests_of (effects (handleSavePrompt s)) = [])
   \<and> ((\<forall>ev \<in> set evs. \<not> successful_settle ev) \<longrightarrow>
      requests_of (effects (handleSavePrompt (fst (run lc mk evs)))) = [])
   \<and> (\<not> blank (userPrompt s) \<and> get_prop (metadata s) (u16 ''layout'') = Inr v \<and> js_truthy v \<longrightarrow>
      requests_of (effects (handleSavePrompt s)) =
        [(BASE @ u16 ''/save-prompt/'',
          Json (JObj [(u16 ''layout'', v), (u16 ''prompt'', JStr (userPrompt s))]))])"
proof -
  have a: "\<And>s. blank (userPrompt s) \<or> \<not> has_layout (metadata s) \<Longrightarrow>
      requests_of (effects (handleSavePrompt s)) = []"
    by (auto simp: save_start_effects has_layout_def split: sum.splits)
  have b: "(\<forall>ev \<in> set evs. \<not> successful_settle ev) \<longrightarrow>
      requests_of (effects (handleSavePrompt (fst (run lc mk evs)))) = []"
  proof
    assume "\<forall>ev \<in> set evs. \<not> successful_settle ev"
    from run_keeps_metadata [OF this, of lc mk]
    have "\<not> has_layout (metadata (fst (run lc mk evs)))"
      by (simp add: empty_metadata_no_layout)
    then show "requests_of (effects (handleSavePrompt (fst (run lc mk evs)))) = []"
      by (simp add: a)
  qed
  have c: "\<not> blank (userPrompt s) \<and> get_prop (metadata s) (u16 ''layout'') = Inr v \<and> js_truthy v \<longrightarrow>
      requests_of (effects (handleSavePrompt s)) =
        [(BASE @ u16 ''/save-prompt/'',
          Json (JObj [(u16 ''layout'', v), (u16 ''prompt'', JStr (userPrompt s))]))]"
    by (simp add: save_start_effects)
  from a [of s] b c show ?thesis by blast
qed

text \<open>
  After a successful process call and with the prompt \<open>summarize\<close>, the body is
  \<open>{layout: "invoice", prompt: "summarize"}\<close>; with the same prompt before any process
  call, nothing is sent.
\<close>

theorem save_prompt_requests_witness:
  "\<not> blank (userPrompt prompt_state)
   \<and> get_prop (metadata prompt_state) (u16 ''layout'') = Inr (JStr (u16 ''invoice''))
   \<and> js_truthy (JStr (u16 ''invoice''))
   \<and> requests_of (effects (handleSavePrompt prompt_state)) =
       [(BASE @ u16 ''/save-prompt/'',
         Json (JObj [(u16 ''layout'', JStr (u16 ''invoice'')),
                     (u16 ''prompt'', JStr (u16 ''summarize''))]))]
   \<and> \<not> has_layout (metadata unprocessed_prompt_state)
   \<and> requests_of (effects (handleSavePrompt unprocessed_prompt_state)) = []
   \<and> \<not> successful_settle (ChangePrompt (u16 ''summarize''))
   \<and> requests_of (effects (handleSavePrompt
         (fst (run (\<lambda>x. x) (\<lambda>f. u16 ''blob:1'') [ChangePrompt (u16 ''summarize'')])))) = []"
proof -
  have n: "\<not> has_layout (metadata unprocessed_prompt_state)"
    by (simp add: unprocessed_prompt_state_def initial_state_def has_layout_def)
  have e: "\<forall>ev \<in> set [ChangePrompt (u16 ''summarize'')]. \<not> successful_settle ev"
    by simp
  from save_prompt_requests [of prompt_state "[]" "\<lambda>x. x" "\<lambda>f. u16 ''blob:1''" "JStr (u16 ''invoice'')"]
  have 1: "requests_of (effects (handleSavePrompt prompt_state)) =
       [(BASE @ u16 ''/save-prompt/'',
         Json (JObj [(u16 ''layout'', JStr (u16 ''invoice'')),
                     (u16 ''prompt'', JStr (u16 ''summarize''))]))]"
    using prompt_state_facts by simp
  from save_prompt_requests [of unprocessed_prompt_state "[ChangePrompt (u16 ''summarize'')]"
         "\<lambda>x. x" "\<lambda>f. u16 ''blob:1''" JNull]
  have 2: "requests_of (effects (handleSavePrompt unprocessed_prompt_state)) = []"
    and 3: "requests_of (effects (handleSavePrompt
         (fst (run (\<lambda>x. x) (\<lambda>f. u16 ''blob:1'') [ChangePrompt (u16 ''summarize'')])))) = []"
    using n e by simp_all
  show ?thesis using prompt_state_facts n 1 2 3 by simp
qed

text \<open>
  C5 as stated has the body sent whenever the prompt is non-empty and the metadata contains
  a layout.  A prompt of one space is not empty, the metadata holds the layout
  \<open>invoice\<close>, and nothing is sent; likewise for the prompt \<open>summarize\<close> and metadata
  whose layout is the number 0.
\<close>

theorem save_prompt_blank_or_zero_layout_counterexample:
  "userPrompt blank_prompt_state \<noteq> []
   \<and> get_prop (metadata blank_prompt_state) (u16 ''layout'') = Inr (JStr (u16 ''invoice''))
   \<and> requests_of (effects (handleSavePrompt blank_prompt_state)) = []
   \<and> userPrompt zero_layout_state = u16 ''summarize''
   \<and> get_prop (metadata zero_layout_state) (u16 ''layout'') = Inr (JNum (Num True (u16 ''0'')))
   \<and> requests_of (effects (handleSavePrompt zero_layout_state)) = []"
  by (simp add: save_start_effects blank_prompt_state_def zero_layout_state_def prompt_state_def
        processed_state_def blank_def is_ws_def)

text \<open>
  C6.  When the try request is rejected (axios rejects on a transport failure and on an
  error status of the server), the handler logs the error and stores the object
  \<open>{error: "Failed to try prompt"}\<close> as the prompt result, which makes the view render
  the result block; it raises no alert, and every other field of the state is unchanged.
\<close>

theorem try_prompt_failure_stores_error:
  "effects (handleTryPrompt_resume (Rejected e)) =
     [ConsoleError e,
      SetPromptResult (JObj [(u16 ''error'', JStr (u16 ''Failed to try prompt''))])]
   \<and> alerts_of (effects (handleTryPrompt_resume (Rejected e))) = []
   \<and> commit (effects (handleTryPrompt_resume (Rejected e))) s =
       s\<lparr>promptResult := JObj [(u16 ''error'', JStr (u16 ''Failed to try prompt''))]\<rparr>
   \<and> result_shown (commit (effects (handleTryPrompt_resume (Rejected e))) s)"
  by (simp add: try_resume_effects commit_def result_shown_def)

text \<open>A network error while a prompt is tried.\<close>

theorem try_prompt_failure_stores_error_witness:
  "alerts_of (effects (handleTryPrompt_resume (Rejected network_error))) = []
   \<and> commit (effects (handleTryPrompt_resume (Rejected network_error))) prompt_state =
       prompt_state\<lparr>promptResult := JObj [(u16 ''error'', JStr (u16 ''Failed to try prompt''))]\<rparr>
   \<and> result_shown (commit (effects (handleTryPrompt_resume (Rejected network_error))) prompt_state)"
  using try_prompt_failure_stores_error [of network_error prompt_state] by blast

text \<open>
  C7, as the code has it.  A try call whose prompt is not blank issues one request to the
  try endpoint with the body \<open>{prompt: userPrompt, structured_markdown: description}\<close>
  and nothing else; when the request resolves and \<open>result\<close> can be read from its data,
  that value is stored unchanged as the prompt result and nothing else changes.
\<close>

theorem try_prompt_request_and_result:
  "(\<not> blank (userPrompt s) \<longrightarrow>
      effects (handleTryPrompt s) =
        [Post (BASE @ u16 ''/try-prompt/'')
           (Json (JObj [(u16 ''prompt'', JStr (userPrompt s)),
                        (u16 ''structured_markdown'', description s)]))])
   \<and> (get_prop data (u16 ''result'') = Inr r \<longrightarrow>
        effects (handleTryPrompt_resume (Resolved data)) = [SetPromptResult r]
      \<and> commit (effects (handleTryPrompt_resume (Resolved data))) s' = s'\<lparr>promptResult := r\<rparr>)"
  by (simp add: try_start_effects try_resume_effects commit_def)

text \<open>The prompt \<open>summarize\<close> after a successful process call, answered by \<open>{result: {ok: true}}\<close>.\<close>

theorem try_prompt_request_and_result_witness:
  "\<not> blank (userPrompt prompt_state)
   \<and> requests_of (effects (handleTryPrompt prompt_state)) =
       [(BASE @ u16 ''/try-prompt/'',
         Json (JObj [(u16 ''prompt'', JStr (u16 ''summarize'')),
                     (u16 ''structured_markdown'', JStr (u16 ''# Invoice''))]))]
   \<and> get_prop try_data (u16 ''result'') = Inr (JObj [(u16 ''ok'', JBool True)])
   \<and> promptResult (commit (effects (handleTryPrompt_resume (Resolved try_data))) prompt_state) =
       JObj [(u16 ''ok'', JBool True)]"
proof -
  have g: "get_prop try_data (u16 ''result'') = Inr (JObj [(u16 ''ok'', JBool True)])"
    by (simp add: try_data_def u16_def)
  have d: "description prompt_state = JStr (u16 ''# Invoice'')"
    by (simp add: prompt_state_def processed_state_def)
  from try_prompt_request_and_result
         [of prompt_state try_data "JObj [(u16 ''ok'', JBool True)]" prompt_state]
  show ?thesis using prompt_state_facts g d by (simp add: commit_def)
qed

text \<open>
  C7 as stated has the body sent for every non-empty prompt.  A prompt of one space is not
  empty, and the try handler sends nothing.
\<close>

theorem try_prompt_space_prompt_counterexample:
  "userPrompt blank_prompt_state \<noteq> []
   \<and> requests_of (effects (handleTryPrompt blank_prompt_state)) = []"
  by (simp add: try_start_effects blank_prompt_state_def blank_def is_ws_def)

text \<open>
  C9.  A selection event whose file list is empty calls no setter and leaves the ref
  alone: the whole state, hence the stored file, the file type and the preview address,
  is what it was.
\<close>

theorem empty_selection_changes_nothing:
  "effects (handleFileUpload lc mk []) = []
   \<and> commit (effects (handleFileUpload lc mk [])) s = s"
  by (simp add: upload_effects commit_def)

text \<open>Cancelling the picker after \<open>invoice.pdf\<close> was chosen and processed.\<close>

theorem empty_selection_changes_nothing_witness:
  "commit (effects (handleFileUpload (\<lambda>x. x) (\<lambda>f. u16 ''blob:2'') [])) processed_state = processed_state
   \<and> uploadedFile (commit (effects (handleFileUpload (\<lambda>x. x) (\<lambda>f. u16 ''blob:2'') [])) processed_state) =
       Some invoice_pdf
   \<and> fileType (commit (effects (handleFileUpload (\<lambda>x. x) (\<lambda>f. u16 ''blob:2'') [])) processed_state) =
       u16 ''pdf''
   \<and> pdfUrl (commit (effects (handleFileUpload (\<lambda>x. x) (\<lambda>f. u16 ''blob:2'') [])) processed_state) =
       Some (u16 ''blob:1'')"
  using empty_selection_changes_nothing [of "\<lambda>x. x" "\<lambda>f. u16 ''blob:2''" processed_state]
  by (simp add: commit_def processed_state_def ready_state_def)

section \<open>The loading flag\<close>

text \<open>
  The flag over whole sessions: \<open>run\<close> plays any sequence of events from the initial
  state and counts the process requests in flight.  At most one is ever in flight, and the
  flag is set exactly while one is.
\<close>

lemma resume_resets_loading: "loading (commit (effects (handleProcessFile_resume out)) s) = False"
proof (cases out rule: resume_cases)
  case (success data)
  then show ?thesis by (simp add: resume_success commit_def)
next
  case (failure data st)
  then show ?thesis by (simp add: resume_failure commit_def split: sum.splits)
next
  case (threw data e)
  then show ?thesis by (simp add: resume_throw commit_def)
next
  case (rejected e)
  then show ?thesis by (simp add: resume_rejected commit_def)
qed

lemma resume_ends_with_reset: "last (effects (handleProcessFile_resume out)) = SetLoading False"
proof (cases out rule: resume_cases)
  case (success data)
  then show ?thesis by (simp add: resume_success)
next
  case (failure data st)
  then show ?thesis by (simp add: resume_failure split: sum.splits)
next
  case (threw data e)
  then show ?thesis by (simp add: resume_throw)
next
  case (rejected e)
  then show ?thesis by (simp add: resume_rejected)
qed

lemma start_sets_loading:
  "loading (commit (effects (handleProcessFile s)) s) =
     (loading s \<or> requests_of (effects (handleProcessFile s)) \<noteq> [])"
  and start_at_most_one_request: "length (requests_of (effects (handleProcessFile s))) \<le> 1"
  by (simp_all add: start_effects commit_def split: option.splits)

lemma other_handlers_keep_loading:
  "loading (commit (effects (handleFileUpload lc mk fs)) s) = loading s"
  "loading (commit (effects (handleTryPrompt s)) s) = loading s"
  "loading (commit (effects (handleTryPrompt_resume out)) s) = loading s"
  "loading (commit (effects (handleSavePrompt s)) s) = loading s"
  "loading (commit (effects (handleSavePrompt_resume out)) s) = loading s"
  "loading (commit [SetSchemaJson v] s) = loading s"
  "loading (commit [SetUserPrompt v] s) = loading s"
  by (simp_all add: upload_effects try_start_effects try_resume_effects save_start_effects
        save_resume_effects commit_def split: list.splits outcome.splits sum.splits)

lemma step_keeps_loading_invariant:
  assumes "n \<le> 1" and "loading s \<longleftrightarrow> n = 1"
  shows "snd (ui_step lc mk ev (s, n)) \<le> 1
       \<and> (loading (fst (ui_step lc mk ev (s, n))) \<longleftrightarrow> snd (ui_step lc mk ev (s, n)) = 1)"
proof (cases ev)
  case ClickProcess
  show ?thesis
  proof (cases "loading s")
    case True
    with assms ClickProcess show ?thesis by (simp add: submit_disabled_def)
  next
    case False
    with assms have "n = 0" by auto
    with False ClickProcess start_at_most_one_request [of s] show ?thesis
      by (cases "requests_of (effects (handleProcessFile s))")
         (simp_all add: submit_disabled_def start_sets_loading)
  qed
next
  case (ProcessSettled out)
  with assms show ?thesis by (auto simp: resume_resets_loading)
qed (use assms in \<open>simp_all add: other_handlers_keep_loading\<close>)

lemma run_loading_invariant:
  "snd (run lc mk evs) \<le> 1 \<and> (loading (fst (run lc mk evs)) \<longleftrightarrow> snd (run lc mk evs) = 1)"
proof (induction evs rule: rev_induct)
  case Nil
  show ?case by (simp add: run_def initial_state_def)
next
  case (snoc ev evs)
  obtain s n where sn: "run lc mk evs = (s, n)" by (cases "run lc mk evs")
  with snoc have "n \<le> 1" and "loading s \<longleftrightarrow> n = 1" by simp_all
  from step_keeps_loading_invariant [OF this, of lc mk ev]
  show ?case by (simp add: run_snoc sn)
qed

lemma sample_run_pending:
  "snd (run (\<lambda>x. x) (\<lambda>f. u16 ''blob:1'')
      [SelectFiles [invoice_pdf], ChangeSchema (u16 ''{}''), ClickProcess]) = 1"
  by (simp add: run_def upload_effects start_effects commit_def submit_disabled_def
        initial_state_def blank_def is_ws_def u16_def)

lemma sample_run_settled:
  "snd (run (\<lambda>x. x) (\<lambda>f. u16 ''blob:1'')
      [SelectFiles [invoice_pdf], ChangeSchema (u16 ''{}''), ClickProcess,
       ProcessSettled (Rejected network_error)]) = 0"
  by (simp add: run_def upload_effects start_effects commit_def submit_disabled_def
        initial_state_def blank_def is_ws_def u16_def)

text \<open>
  C8.  A process call that passes its guards sets the loading flag and then issues the
  request, in that order and in one run, so the render that follows shows the Process
  button disabled.  The run after the \<open>await\<close> ends by resetting the flag whatever the
  outcome (success, another status, a throw on reading the response, a rejected request),
  so the render that follows shows the button enabled.  Over every sequence of events from
  the initial state, the button is disabled exactly while a process request is in flight,
  and no second request is started meanwhile.
\<close>

theorem loading_flag_brackets_process_call:
  "(uploadedFile s = Some f \<and> \<not> blank (schemaJson s) \<longrightarrow>
        effects (handleProcessFile s) =
          [SetLoading True,
           Post (BASE @ u16 ''/process-document/'')
             (Multipart [(u16 ''file'', FilePart f),
                         (u16 ''schema_json'', TextPart (schemaJson s))])]
      \<and> submit_disabled (commit (effects (handleProcessFile s)) s))
   \<and> last (effects (handleProcessFile_resume out)) = SetLoading False
   \<and> \<not> submit_disabled (commit (effects (handleProcessFile_resume out)) s')
   \<and> snd (run lc mk evs) \<le> 1
   \<and> (submit_disabled (fst (run lc mk evs)) \<longleftrightarrow> snd (run lc mk evs) = 1)"
proof -
  have a: "uploadedFile s = Some f \<and> \<not> blank (schemaJson s) \<longrightarrow>
        effects (handleProcessFile s) =
          [SetLoading True,
           Post (BASE @ u16 ''/process-document/'')
             (Multipart [(u16 ''file'', FilePart f),
                         (u16 ''schema_json'', TextPart (schemaJson s))])]
      \<and> submit_disabled (commit (effects (handleProcessFile s)) s)"
    by (simp add: start_effects commit_def submit_disabled_def)
  have b: "\<not> submit_disabled (commit (effects (handleProcessFile_resume out)) s')"
    by (simp add: submit_disabled_def resume_resets_loading)
  from run_loading_invariant [of lc mk evs]
  have c: "snd (run lc mk evs) \<le> 1"
    and d: "submit_disabled (fst (run lc mk evs)) \<longleftrightarrow> snd (run lc mk evs) = 1"
    by (simp_all add: submit_disabled_def)
  show ?thesis
    by (rule conjI [OF a conjI [OF resume_ends_with_reset conjI [OF b conjI [OF c d]]]])
qed

text \<open>
  Choosing \<open>invoice.pdf\<close>, typing a schema and clicking Process disables the button; the
  request failing on the network enables it again.
\<close>

theorem loading_flag_brackets_process_call_witness:
  "uploadedFile ready_state = Some invoice_pdf
   \<and> \<not> blank (schemaJson ready_state)
   \<and> submit_disabled (commit (effects (handleProcessFile ready_state)) ready_state)
   \<and> \<not> submit_disabled (commit (effects (handleProcessFile_resume (Rejected network_error)))
         (commit (effects (handleProcessFile ready_state)) ready_state))
   \<and> submit_disabled (fst (run (\<lambda>x. x) (\<lambda>f. u16 ''blob:1'')
         [SelectFiles [invoice_pdf], ChangeSchema (u16 ''{}''), ClickProcess]))
   \<and> \<not> submit_disabled (fst (run (\<lambda>x. x) (\<lambda>f. u16 ''blob:1'')
         [SelectFiles [invoice_pdf], ChangeSchema (u16 ''{}''), ClickProcess,
          ProcessSettled (Rejected network_error)]))"
proof -
  have h: "uploadedFile ready_state = Some invoice_pdf" "\<not> blank (schemaJson ready_state)"
    by (simp_all add: ready_state_def blank_def is_ws_def u16_def)
  from loading_flag_brackets_process_call
         [of ready_state invoice_pdf "Rejected network_error"
             "commit (effects (handleProcessFile ready_state)) ready_state"
             "\<lambda>x. x" "\<lambda>f. u16 ''blob:1''"
             "[SelectFiles [invoice_pdf], ChangeSchema (u16 ''{}''), ClickProcess]"]
  have 1: "submit_disabled (commit (effects (handleProcessFile ready_state)) ready_state)"
    and 2: "\<not> submit_disabled (commit (effects (handleProcessFile_resume (Rejected network_error)))
         (commit (effects (handleProcessFile ready_state)) ready_state))"
    and 3: "submit_disabled (fst (run (\<lambda>x. x) (\<lambda>f. u16 ''blob:1'')
         [SelectFiles [invoice_pdf], ChangeSchema (u16 ''{}''), ClickProcess]))"
    using h sample_run_pending by blast+
  from loading_flag_brackets_process_call
         [of ready_state invoice_pdf "Rejected network_error" ready_state
             "\<lambda>x. x" "\<lambda>f. u16 ''blob:1''"
             "[SelectFiles [invoice_pdf], ChangeSchema (u16 ''{}''), ClickProcess,
               ProcessSettled (Rejected network_error)]"]
  have 4: "\<not> submit_disabled (fst (run (\<lambda>x. x) (\<lambda>f. u16 ''blob:1'')
         [SelectFiles [invoice_pdf], ChangeSchema (u16 ''{}''), ClickProcess,
          ProcessSettled (Rejected network_error)]))"
    using sample_run_settled by auto
  show ?thesis using h 1 2 3 4 by simp
qed

end
